theory Spec2Isabelle
  imports Complex_Main
begin

section \<open>JavaScript values used by the event-search pipeline\<close>

text \<open>
  The service \<^verbatim>\<open>src/services/predicthq.ts\<close> is embedded function by function.

  \<^item> A JavaScript string is a \<^typ>\<open>string\<close>: a list of code units below 256 (the Latin-1
    range). Strings with code units above 255, and so lone surrogates, on which
    \<^verbatim>\<open>encodeURIComponent\<close> raises \<^verbatim>\<open>URIError\<close>, are outside the model.
  \<^item> A JavaScript number is a \<^typ>\<open>real\<close>: the value of a finite double, with the
    arithmetic taken exactly. \<^verbatim>\<open>NaN\<close> and the infinities are outside the model.
  \<^item> An optional field (\<^verbatim>\<open>x?: T\<close>) is a \<^typ>\<open>'a option\<close>; \<^verbatim>\<open>undefined\<close> is \<^term>\<open>None\<close>.
\<close>

type_synonym number = real

text \<open>Truthiness: the empty string and the number 0 are falsy, like \<^verbatim>\<open>undefined\<close>.\<close>

definition truthy_string :: "string option \<Rightarrow> bool" where
  "truthy_string a = (case a of None \<Rightarrow> False | Some s \<Rightarrow> s \<noteq> [])"

definition truthy_number :: "number option \<Rightarrow> bool" where
  "truthy_number a = (case a of None \<Rightarrow> False | Some x \<Rightarrow> x \<noteq> 0)"

text \<open>\<^verbatim>\<open>a || b\<close> on optional strings and numbers: the left operand when it is truthy.\<close>

definition or_string :: "string option \<Rightarrow> string option \<Rightarrow> string option" where
  "or_string a b = (if truthy_string a then a else b)"

definition or_number :: "number option \<Rightarrow> number option \<Rightarrow> number option" where
  "or_number a b = (if truthy_number a then a else b)"

text \<open>\<^verbatim>\<open>a || "literal"\<close>: the right operand is a string that is always there.\<close>

definition or_else :: "string option \<Rightarrow> string \<Rightarrow> string" where
  "or_else a d = (case a of None \<Rightarrow> d | Some s \<Rightarrow> if s = [] then d else s)"

subsection \<open>String functions of the standard library\<close>

definition js_whitespace :: "char \<Rightarrow> bool" where
  "js_whitespace c = ((of_char c :: nat) \<in> {9, 10, 11, 12, 13, 32, 160})"

definition trim :: "string \<Rightarrow> string" where
  "trim s = rev (dropWhile js_whitespace (rev (dropWhile js_whitespace s)))"

text \<open>\<^verbatim>\<open>s.split(sep)\<close> for a one-character separator; \<^verbatim>\<open>"".split(",")\<close> is \<^verbatim>\<open>[""]\<close>.\<close>

fun split_from :: "char \<Rightarrow> string \<Rightarrow> string \<Rightarrow> string list" where
  "split_from sep cur [] = [rev cur]"
| "split_from sep cur (c # cs) =
     (if c = sep then rev cur # split_from sep [] cs else split_from sep (c # cur) cs)"

definition split :: "string \<Rightarrow> char \<Rightarrow> string list" where
  "split s sep = split_from sep [] s"

text \<open>\<^verbatim>\<open>parts.join(sep)\<close>.\<close>

fun join :: "string list \<Rightarrow> string \<Rightarrow> string" where
  "join [] sep = []"
| "join [p] sep = p"
| "join (p # q # ps) sep = p @ sep @ join (q # ps) sep"

text \<open>\<^verbatim>\<open>s.includes(sub)\<close>.\<close>

fun str_includes :: "string \<Rightarrow> string \<Rightarrow> bool" where
  "str_includes [] sub = (sub = [])"
| "str_includes (c # cs) sub = (take (length sub) (c # cs) = sub \<or> str_includes cs sub)"

text \<open>\<^verbatim>\<open>s.toLowerCase()\<close> on Latin-1: A-Z, and the accented capitals except the
  multiplication sign.\<close>

definition lower_char :: "char \<Rightarrow> char" where
  "lower_char c =
     (let n = (of_char c :: nat)
      in if (65 \<le> n \<and> n \<le> 90) \<or> (192 \<le> n \<and> n \<le> 214) \<or> (216 \<le> n \<and> n \<le> 222)
         then char_of (n + 32) else c)"

definition toLowerCase :: "string \<Rightarrow> string" where
  "toLowerCase s = map lower_char s"

text \<open>\<^verbatim>\<open>encodeURIComponent\<close>: letters, digits and \<^verbatim>\<open>- _ . ! ~ * ' ( )\<close> stay; every other
  code unit is replaced by the percent-escapes of its UTF-8 bytes.\<close>

definition hex_digit :: "nat \<Rightarrow> char" where
  "hex_digit n = (''0123456789ABCDEF'' ! (n mod 16))"

definition percent_byte :: "nat \<Rightarrow> string" where
  "percent_byte b = [CHR ''%'', hex_digit (b div 16), hex_digit b]"

definition utf8_bytes :: "char \<Rightarrow> nat list" where
  "utf8_bytes c =
     (let n = (of_char c :: nat)
      in if n < 128 then [n] else [192 + n div 64, 128 + n mod 64])"

definition alphanumeric :: "char \<Rightarrow> bool" where
  "alphanumeric c =
     (let n = (of_char c :: nat)
      in (48 \<le> n \<and> n \<le> 57) \<or> (65 \<le> n \<and> n \<le> 90) \<or> (97 \<le> n \<and> n \<le> 122))"

definition uri_unreserved :: "char \<Rightarrow> bool" where
  "uri_unreserved c = (alphanumeric c \<or> c \<in> set ''-_.!~*()'' \<or> c = CHR 0x27)"

definition encodeURIComponent :: "string \<Rightarrow> string" where
  "encodeURIComponent s =
     concat (map (\<lambda>c. if uri_unreserved c then [c]
                       else concat (map percent_byte (utf8_bytes c))) s)"

text \<open>\<^verbatim>\<open>URLSearchParams\<close>: an ordered list of name/value pairs (\<^verbatim>\<open>append\<close> keeps
  duplicates). \<^verbatim>\<open>toString()\<close> is the form-urlencoded serialisation: letters, digits and
  \<^verbatim>\<open>* - . _\<close> stay, a space becomes \<^verbatim>\<open>+\<close>.\<close>

type_synonym URLSearchParams = "(string \<times> string) list"

definition params_append :: "URLSearchParams \<Rightarrow> string \<Rightarrow> string \<Rightarrow> URLSearchParams" where
  "params_append params k v = params @ [(k, v)]"

definition form_encode :: "string \<Rightarrow> string" where
  "form_encode s =
     concat (map (\<lambda>c. if alphanumeric c \<or> c \<in> set ''*-._'' then [c]
                       else if c = CHR '' '' then ''+''
                       else concat (map percent_byte (utf8_bytes c))) s)"

definition params_toString :: "URLSearchParams \<Rightarrow> string" where
  "params_toString params =
     join (map (\<lambda>(k, v). form_encode k @ ''='' @ form_encode v) params) ''&''"

subsection \<open>Numbers as text\<close>

text \<open>The decimal digits of a natural number.\<close>

fun show_nat :: "nat \<Rightarrow> string" where
  "show_nat n =
     (if n < 10 then [hex_digit n] else show_nat (n div 10) @ [hex_digit (n mod 10)])"

declare show_nat.simps [simp del]

definition show_int :: "int \<Rightarrow> string" where
  "show_int i = (if i < 0 then CHR ''-'' # show_nat (nat (- i)) else show_nat (nat i))"

text \<open>\<^verbatim>\<open>Math.round\<close>: the nearest integer, a tie going up.\<close>

definition Math_round :: "number \<Rightarrow> int" where
  "Math_round x = \<lfloor>x + 1 / 2\<rfloor>"

text \<open>\<^verbatim>\<open>x.toFixed(4)\<close> for \<open>\<bar>x\<bar> < 10\<^sup>2\<^sup>1\<close> (above that JavaScript switches to the exponent
  form, which coordinates never reach): the sign, the integer part, a point and four
  digits, the value rounded to the nearest ten-thousandth, a tie going away from zero.\<close>

definition toFixed4 :: "number \<Rightarrow> string" where
  "toFixed4 x =
     (let n = nat \<lfloor>\<bar>x\<bar> * 10000 + 1 / 2\<rfloor>;
          frac = show_nat (n mod 10000)
      in (if x < 0 then ''-'' else '''') @ show_nat (n div 10000) @ ''.''
         @ replicate (4 - length frac) CHR ''0'' @ frac)"

section \<open>Data model\<close>

text \<open>The provider's event record (\<^verbatim>\<open>interface PredictHQEvent\<close>), with the fields that
  the service reads. The ranking, label and prediction fields are never read.
  \<^verbatim>\<open>private\<close> is optional here because the code reads it as \<^verbatim>\<open>private || false\<close>.\<close>

record coords =
  lat :: number
  lon :: number

record address_block =
  addr_name :: "string option"
  addr_street :: "string option"
  addr_locality :: "string option"
  addr_region :: "string option"
  addr_country :: "string option"

record location_entry =
  loc_location :: coords
  loc_address :: "address_block option"

record entity =
  ent_entity_id :: "string option"
  ent_name :: string
  ent_type :: string
  ent_formatted_address :: "string option"
  ent_url :: "string option"
  ent_website :: "string option"

text \<open>\<^verbatim>\<open>coordinates\<close> is \<^verbatim>\<open>[longitude, latitude]\<close>.\<close>

record geometry =
  coordinates :: "number \<times> number"
  geom_type :: string

record geo_field =
  geometry :: geometry

record PredictHQEvent =
  p_id :: string
  p_title :: string
  p_description :: "string option"
  p_category :: string
  p_start :: string
  p_end :: "string option"
  p_timezone :: string
  p_location :: "location_entry list"
  p_entities :: "entity list option"
  p_url :: "string option"
  p_website :: "string option"
  p_ticket_url :: "string option"
  p_external_url :: "string option"
  p_private :: "bool option"
  p_country :: "string option"
  p_geo :: "geo_field option"

text \<open>The internal event (\<^verbatim>\<open>interface Event\<close> of \<^verbatim>\<open>types/event\<close>).\<close>

record venue =
  v_name :: string
  v_address :: string
  v_city :: "string option"
  v_latitude :: "number option"
  v_longitude :: "number option"

record price =
  price_min :: "number option"
  price_max :: "number option"
  price_currency :: string
  price_display :: string

record Event =
  ev_id :: string
  ev_name :: string
  ev_description :: string
  ev_startDate :: string
  ev_endDate :: string
  ev_timezone :: string
  ev_url :: string
  ev_imageUrl :: "string option"
  ev_venue :: "venue option"
  ev_price :: "price option"
  ev_category :: "string option"
  ev_isOnline :: bool

section \<open>transformEvent\<close>

text \<open>Each definition below is one local variable of \<^verbatim>\<open>transformEvent\<close>, in the order of
  the source.\<close>

definition te_location :: "PredictHQEvent \<Rightarrow> location_entry option" where
  "te_location e = (case p_location e of [] \<Rightarrow> None | l # _ \<Rightarrow> Some l)"

definition te_address :: "PredictHQEvent \<Rightarrow> address_block option" where
  "te_address e = (case te_location e of None \<Rightarrow> None | Some l \<Rightarrow> loc_address l)"

definition te_geo :: "PredictHQEvent \<Rightarrow> coords option" where
  "te_geo e =
     (case te_location e of
        Some l \<Rightarrow> Some (loc_location l)
      | None \<Rightarrow>
          (case p_geo e of
             None \<Rightarrow> None
           | Some g \<Rightarrow> Some \<lparr>lat = snd (coordinates (geometry g)),
                             lon = fst (coordinates (geometry g))\<rparr>))"

definition te_venueEntity :: "PredictHQEvent \<Rightarrow> entity option" where
  "te_venueEntity e =
     (case p_entities e of
        None \<Rightarrow> None
      | Some es \<Rightarrow> find (\<lambda>x. ent_type x = ''venue'') es)"

definition te_entityWithAddress :: "PredictHQEvent \<Rightarrow> entity option" where
  "te_entityWithAddress e =
     (case (case p_entities e of
              None \<Rightarrow> None
            | Some es \<Rightarrow> find (\<lambda>x. truthy_string (ent_formatted_address x)) es) of
        Some x \<Rightarrow> Some x
      | None \<Rightarrow> te_venueEntity e)"

definition te_venueName :: "PredictHQEvent \<Rightarrow> string" where
  "te_venueName e =
     or_else
       (or_string (map_option ent_name (te_venueEntity e))
          (or_string (map_option ent_name (te_entityWithAddress e))
             (Option.bind (te_address e) addr_name)))
       ''Event Venue''"

definition te_addressParts :: "PredictHQEvent \<Rightarrow> string list" where
  "te_addressParts e =
     map the
       (filter truthy_string
          [Option.bind (te_address e) addr_street,
           Option.bind (te_address e) addr_locality,
           Option.bind (te_address e) addr_region,
           or_string (Option.bind (te_address e) addr_country) (p_country e)])"

definition te_addressString :: "PredictHQEvent \<Rightarrow> string" where
  "te_addressString e =
     (let addressString =
            or_string (Option.bind (te_entityWithAddress e) ent_formatted_address)
                      (Option.bind (te_venueEntity e) ent_formatted_address)
      in if truthy_string addressString then the addressString
         else if length (te_addressParts e) > 0 then join (te_addressParts e) '', ''
         else if truthy_string (Option.bind (te_address e) addr_name)
                 \<and> the (Option.bind (te_address e) addr_name) \<noteq> te_venueName e
              then the (Option.bind (te_address e) addr_name)
         else if truthy_string (p_country e) then the (p_country e)
         else (case te_geo e of
                 Some g \<Rightarrow> toFixed4 (lat g) @ '', '' @ toFixed4 (lon g)
               | None \<Rightarrow> ''Location available''))"

definition te_city :: "PredictHQEvent \<Rightarrow> string option" where
  "te_city e =
     (let city = Option.bind (te_address e) addr_locality;
          fa = Option.bind (te_venueEntity e) ent_formatted_address
      in if \<not> truthy_string city \<and> truthy_string fa
         then (let parts = map trim (split (the fa) CHR '','')
               in if length parts \<ge> 2 then Some (parts ! (length parts - 2)) else city)
         else city)"

definition te_entityWithUrl :: "entity list \<Rightarrow> entity option" where
  "te_entityWithUrl es =
     find (\<lambda>x. truthy_string (ent_url x) \<or> truthy_string (ent_website x)) es"

definition te_providerUrl :: "PredictHQEvent \<Rightarrow> string option" where
  "te_providerUrl e =
     (if truthy_string (p_ticket_url e) then p_ticket_url e
      else if truthy_string (p_external_url e) then p_external_url e
      else if truthy_string (p_url e) then p_url e
      else if truthy_string (p_website e) then p_website e
      else (case p_entities e of
              None \<Rightarrow> None
            | Some es \<Rightarrow>
                (case te_entityWithUrl es of
                   None \<Rightarrow> None
                 | Some x \<Rightarrow> or_string (ent_url x) (ent_website x))))"

definition te_searchQuery :: "PredictHQEvent \<Rightarrow> string" where
  "te_searchQuery e =
     encodeURIComponent
       (p_title e @ '' tickets ''
        @ or_else (or_string (te_city e) (Option.bind (te_address e) addr_locality)) '''')"

definition te_eventUrl :: "PredictHQEvent \<Rightarrow> string" where
  "te_eventUrl e =
     (if truthy_string (te_providerUrl e) then the (te_providerUrl e)
      else ''https://www.google.com/search?q='' @ te_searchQuery e)"

definition transformEvent :: "PredictHQEvent \<Rightarrow> Event" where
  "transformEvent e =
     \<lparr>ev_id = p_id e,
      ev_name = p_title e,
      ev_description = or_else (p_description e) '''',
      ev_startDate = p_start e,
      ev_endDate = or_else (p_end e) (p_start e),
      ev_timezone = p_timezone e,
      ev_url = te_eventUrl e,
      ev_imageUrl = None,
      ev_venue =
        (if te_geo e \<noteq> None \<or> te_address e \<noteq> None \<or> te_venueEntity e \<noteq> None
         then Some \<lparr>v_name = te_venueName e,
                    v_address = te_addressString e,
                    v_city = te_city e,
                    v_latitude = map_option lat (te_geo e),
                    v_longitude = map_option lon (te_geo e)\<rparr>
         else None),
      ev_price = None,
      ev_category = Some (p_category e),
      ev_isOnline = (case p_private e of None \<Rightarrow> False | Some b \<Rightarrow> b)\<rparr>"

section \<open>The world outside the service\<close>

text \<open>A thrown JavaScript exception, with its message. \<^verbatim>\<open>Error\<close> is what the service throws
  itself (\<^verbatim>\<open>throw new Error(message)\<close>); the other two are raised by the runtime.\<close>

datatype error = Error string | RangeError string | SyntaxError string

text \<open>An HTTP response: \<^verbatim>\<open>json\<close> is what \<^verbatim>\<open>await response.json()\<close> gives, an exception when
  the body is not the JSON the caller reads.\<close>

record 'b Response =
  status :: nat
  statusText :: string
  json :: "error + 'b"

definition ok :: "('b, 'm) Response_scheme \<Rightarrow> bool" where
  "ok response = (200 \<le> status response \<and> status response \<le> 299)"

text \<open>\<^verbatim>\<open>await fetch(...)\<close> rejects with a message (a transport failure) or resolves.\<close>

datatype 'b fetched = Rejected string | Resolved "'b Response"

text \<open>The body of a provider response, as the service reads it: \<^verbatim>\<open>detail\<close>, \<^verbatim>\<open>message\<close>
  and \<^verbatim>\<open>error\<close> on a failure, \<^verbatim>\<open>results\<close> on a success (\<^verbatim>\<open>interface PredictHQResponse\<close>).\<close>

record provider_body =
  b_detail :: "string option"
  b_message :: "string option"
  b_error :: "string option"
  b_results :: "PredictHQEvent list option"

text \<open>\<^verbatim>\<open>interface GeocodingResult\<close>. A body that is \<^verbatim>\<open>null\<close> is read like the empty array.\<close>

record geocoding_address =
  ga_country :: "string option"
  ga_country_code :: "string option"

record GeocodingResult =
  g_lat :: string
  g_lon :: string
  g_display_name :: string
  g_type :: string
  g_class :: "string option"
  g_importance :: number
  g_address :: "geocoding_address option"

text \<open>What the module takes from its surroundings: the two configuration variables, the
  network (the answer to a request being a function of the address requested), the clock,
  and three library functions on numbers and dates whose
  floating-point and calendar definitions are not modelled (\<^verbatim>\<open>parseFloat\<close>, with
  \<^term>\<open>None\<close> for \<^verbatim>\<open>NaN\<close>; the text of a number that is not a whole number below
  \<open>10\<^sup>2\<^sup>1\<close>; \<^verbatim>\<open>new Date(s).toISOString()\<close>, with \<^term>\<open>None\<close> for an invalid date).\<close>

record env =
  PREDICTHQ_API_BASE :: "string option"
  PREDICTHQ_API_TOKEN :: string
  fetch_nominatim :: "string \<Rightarrow> GeocodingResult list fetched"
  fetch_predicthq :: "string \<Rightarrow> provider_body fetched"
  now :: string
  parseFloat :: "string \<Rightarrow> number option"
  fraction_toString :: "number \<Rightarrow> string"
  Date_toISOString :: "string \<Rightarrow> string option"

text \<open>A number inside a template literal: a whole number below \<open>10\<^sup>2\<^sup>1\<close> is written in
  decimal digits.\<close>

definition Number_toString :: "env \<Rightarrow> number \<Rightarrow> string" where
  "Number_toString env x =
     (if x = of_int \<lfloor>x\<rfloor> \<and> \<bar>x\<bar> < 10 ^ 21 then show_int \<lfloor>x\<rfloor> else fraction_toString env x)"

definition dq :: string where
  "dq = [CHR 0x22]"

section \<open>geocodeLocation\<close>

record geocode = coords +
  isCountry :: bool

definition geocode_isCountry :: "string \<Rightarrow> GeocodingResult \<Rightarrow> bool" where
  "geocode_isCountry location result =
     (let locationLower = toLowerCase location
      in (g_class result = Some ''place'' \<and> g_type result = ''country'')
         \<or> g_type result = ''country''
         \<or> (g_importance result < 0.3 \<and> \<not> str_includes (g_type result) ''city''
             \<and> \<not> str_includes (g_type result) ''town'')
         \<or> str_includes locationLower ''nigeria''
         \<or> str_includes locationLower ''country''
         \<or> (case g_address result of
               None \<Rightarrow> False
             | Some a \<Rightarrow>
                 truthy_string (ga_country_code a) \<and> truthy_string (ga_country a)
                 \<and> str_includes locationLower (toLowerCase (the (ga_country a)))))"

definition geocodeLocation :: "env \<Rightarrow> string \<Rightarrow> geocode option" where
  "geocodeLocation env location =
     (case fetch_nominatim env
             (''https://nominatim.openstreetmap.org/search?q='' @ encodeURIComponent location
              @ ''&format=json&limit=1&addressdetails=1'') of
        Rejected msg \<Rightarrow> None
      | Resolved response \<Rightarrow>
          if \<not> ok response then None
          else (case json response of
                  Inl err \<Rightarrow> None
                | Inr [] \<Rightarrow> None
                | Inr (result # _) \<Rightarrow>
                    (case (parseFloat env (g_lat result), parseFloat env (g_lon result)) of
                       (Some la, Some lo) \<Rightarrow>
                         Some \<lparr>lat = la, lon = lo,
                               isCountry = geocode_isCountry location result\<rparr>
                     | _ \<Rightarrow> None)))"

section \<open>searchEvents\<close>

text \<open>\<^verbatim>\<open>interface EventFilters\<close>.\<close>

record price_filter =
  pf_min :: "number option"
  pf_max :: "number option"

record EventFilters =
  f_city :: "string option"
  f_latitude :: "number option"
  f_longitude :: "number option"
  f_radius :: "number option"
  f_startDate :: "string option"
  f_endDate :: "string option"
  f_category :: "string option"
  f_price :: "price_filter option"
  f_query :: "string option"

text \<open>\<^verbatim>\<open>{}\<close>, the filter set with no field.\<close>

definition no_filters :: EventFilters where
  "no_filters =
     \<lparr>f_city = None, f_latitude = None, f_longitude = None, f_radius = None,
      f_startDate = None, f_endDate = None, f_category = None, f_price = None,
      f_query = None\<rparr>"

text \<open>What a call does to the outside, in order: a call of the geocoder with the place
  name, and a request to the provider, kept as the address up to the \<^verbatim>\<open>?\<close> and the
  query parameters.\<close>

datatype effect = Geocode string | Fetch string URLSearchParams

text \<open>The mutable locals of \<^verbatim>\<open>searchEvents\<close>, and the effects so far.\<close>

record search_state =
  searchLatitude :: "number option"
  searchLongitude :: "number option"
  searchRadius :: "number option"
  params :: URLSearchParams
  trace :: "effect list"

definition search_init :: "EventFilters \<Rightarrow> search_state" where
  "search_init filters =
     \<lparr>searchLatitude = f_latitude filters, searchLongitude = f_longitude filters,
      searchRadius = f_radius filters, params = [], trace = []\<rparr>"

text \<open>``If we have a city but no coordinates, geocode it first.''\<close>

definition geocode_step :: "env \<Rightarrow> EventFilters \<Rightarrow> search_state \<Rightarrow> search_state" where
  "geocode_step env filters st =
     (if \<not> truthy_number (searchLatitude st) \<and> \<not> truthy_number (searchLongitude st)
         \<and> truthy_string (f_city filters)
      then (case geocodeLocation env (the (f_city filters)) of
              Some geocodeResult \<Rightarrow>
                st\<lparr>searchLatitude := Some (lat geocodeResult),
                   searchLongitude := Some (lon geocodeResult),
                   searchRadius :=
                     (if isCountry geocodeResult then or_number (searchRadius st) (Some 300)
                      else or_number (searchRadius st) (Some 30)),
                   trace := trace st @ [Geocode (the (f_city filters))]\<rparr>
            | None \<Rightarrow>
                st\<lparr>params := params_append (params st) ''q'' (the (f_city filters)),
                   trace := trace st @ [Geocode (the (f_city filters))]\<rparr>)
      else st)"

text \<open>``Use location-based search if we have coordinates.''\<close>

definition location_step :: "env \<Rightarrow> search_state \<Rightarrow> search_state" where
  "location_step env st =
     (if truthy_number (searchLatitude st) \<and> truthy_number (searchLongitude st)
      then (let radiusKm = (if truthy_number (searchRadius st)
                            then the (searchRadius st) * 1.60934 else 50)
            in st\<lparr>params :=
                   params_append
                     (params_append (params st) ''location_around.origin''
                        (Number_toString env (the (searchLatitude st)) @ '',''
                         @ Number_toString env (the (searchLongitude st))))
                     ''location_around.radius''
                     (Number_toString env (of_int (Math_round radiusKm)) @ ''km'')\<rparr>)
      else st)"

text \<open>``Add date filters.'' An invalid date makes \<^verbatim>\<open>toISOString\<close> raise.\<close>

definition date_step :: "env \<Rightarrow> EventFilters \<Rightarrow> URLSearchParams \<Rightarrow> error + URLSearchParams" where
  "date_step env filters ps =
     (case (if truthy_string (f_startDate filters)
            then (case Date_toISOString env (the (f_startDate filters)) of
                    None \<Rightarrow> Inl (RangeError ''Invalid time value'')
                  | Some d \<Rightarrow> Inr (params_append ps ''start.gte'' d))
            else Inr (params_append ps ''start.gte'' (now env))) of
        Inl err \<Rightarrow> Inl err
      | Inr ps1 \<Rightarrow>
          if truthy_string (f_endDate filters)
          then (case Date_toISOString env (the (f_endDate filters)) of
                  None \<Rightarrow> Inl (RangeError ''Invalid time value'')
                | Some d \<Rightarrow> Inr (params_append ps1 ''start.lte'' d))
          else Inr ps1)"

text \<open>The keyword, the category and the three fixed parameters.\<close>

definition rest_step :: "EventFilters \<Rightarrow> URLSearchParams \<Rightarrow> URLSearchParams" where
  "rest_step filters ps =
     (let ps1 = (if truthy_string (f_query filters)
                 then params_append ps ''q'' (the (f_query filters)) else ps);
          ps2 = (if truthy_string (f_category filters)
                 then params_append ps1 ''category'' (the (f_category filters)) else ps1)
      in params_append (params_append (params_append ps2 ''private'' ''false'') ''limit'' ''50'')
           ''sort'' ''-rank'')"

text \<open>The message of a failed response, before the status is looked at (the same in
  \<^verbatim>\<open>searchEvents\<close> and \<^verbatim>\<open>getEventById\<close>). The local \<^verbatim>\<open>errorDetails\<close> is never read.\<close>

definition api_errorMessage :: "provider_body Response \<Rightarrow> string" where
  "api_errorMessage response =
     (let fallback = ''PredictHQ API error: '' @ show_nat (status response) @ '' ''
                     @ statusText response
      in case json response of
           Inl err \<Rightarrow> fallback
         | Inr errorData \<Rightarrow>
             if truthy_string (b_detail errorData)
             then ''PredictHQ API error: '' @ the (b_detail errorData)
             else if truthy_string (b_message errorData)
             then ''PredictHQ API error: '' @ the (b_message errorData)
             else if truthy_string (b_error errorData)
             then ''PredictHQ API error: '' @ the (b_error errorData)
             else fallback)"

definition search_errorMessage :: "provider_body Response \<Rightarrow> string" where
  "search_errorMessage response =
     (let errorMessage = api_errorMessage response
      in if status response = 401 \<or> status response = 403
         then ''Authentication failed. Please check your PredictHQ API token. '' @ errorMessage
         else if status response = 404
         then ''API endpoint not found. '' @ errorMessage
         else if status response \<ge> 500
         then ''PredictHQ API server error. '' @ errorMessage
         else errorMessage)"

definition token_missing :: error where
  "token_missing = Error ''PredictHQ API token is not configured. Please set NEXT_PUBLIC_PREDICTHQ_API_TOKEN in your .env.local file.''"

definition base_missing :: error where
  "base_missing = Error ''PredictHQ API base URL is not configured. Please set NEXT_PUBLIC_PREDICTHQ_API_BASE in your .env.local file.''"

definition connect_failed :: "string \<Rightarrow> error" where
  "connect_failed msg =
     Error (''Failed to connect to PredictHQ API: '' @ msg
            @ ''. Please check your internet connection and API configuration.'')"

definition search_response :: "provider_body fetched \<Rightarrow> error + Event list" where
  "search_response r =
     (case r of
        Rejected msg \<Rightarrow> Inl (connect_failed msg)
      | Resolved response \<Rightarrow>
          if \<not> ok response then Inl (Error (search_errorMessage response))
          else (case json response of
                  Inl err \<Rightarrow> Inl err
                | Inr data \<Rightarrow>
                    (case b_results data of
                       None \<Rightarrow> Inr []
                     | Some results \<Rightarrow>
                         if length results = 0 then Inr []
                         else Inr (map transformEvent results))))"

definition searchEvents :: "env \<Rightarrow> EventFilters \<Rightarrow> effect list \<times> (error + Event list)" where
  "searchEvents env filters =
     (if PREDICTHQ_API_TOKEN env = [] then ([], Inl token_missing)
      else if \<not> truthy_string (PREDICTHQ_API_BASE env) then ([], Inl base_missing)
      else (let st = location_step env (geocode_step env filters (search_init filters))
            in case date_step env filters (params st) of
                 Inl err \<Rightarrow> (trace st, Inl err)
               | Inr ps \<Rightarrow>
                   (let url = the (PREDICTHQ_API_BASE env) @ ''/events/?'';
                        query = rest_step filters ps
                    in (trace st @ [Fetch url query],
                        search_response
                          (fetch_predicthq env (url @ params_toString query))))))"

section \<open>getPopularEvents\<close>

definition popular_filters :: "string option \<Rightarrow> number option \<Rightarrow> number option \<Rightarrow> EventFilters" where
  "popular_filters city la lo =
     (if truthy_number la \<and> truthy_number lo
      then no_filters\<lparr>f_latitude := la, f_longitude := lo, f_radius := Some 50\<rparr>
      else if truthy_string city then no_filters\<lparr>f_city := city\<rparr>
      else no_filters\<lparr>f_city := Some ''New York''\<rparr>)"

definition getPopularEvents ::
    "env \<Rightarrow> string option \<Rightarrow> number option \<Rightarrow> number option \<Rightarrow> effect list \<times> (error + Event list)" where
  "getPopularEvents env city la lo =
     (case searchEvents env (popular_filters city la lo) of
        (tr, Inl err) \<Rightarrow> (tr, Inl err)
      | (tr, Inr events) \<Rightarrow> (tr, Inr (take 12 events)))"

section \<open>getEventById and getEventsByIds\<close>

definition not_found_empty :: "string \<Rightarrow> error" where
  "not_found_empty eventId =
     Error (''Event not found. The event ID '' @ dq @ eventId @ dq
            @ '' may be invalid or the event may no longer be available.'')"

definition not_found_in_response :: "string \<Rightarrow> error" where
  "not_found_in_response eventId =
     Error (''Event not found. The event ID '' @ dq @ eventId @ dq
            @ '' was not found in the API response.'')"

definition byId_errorMessage :: "string \<Rightarrow> provider_body Response \<Rightarrow> string" where
  "byId_errorMessage eventId response =
     (if status response = 404
      then ''Event not found. The event ID '' @ dq @ eventId @ dq
           @ '' may be invalid, the event may no longer be available, or it might be from a different API. Please try searching for events again.''
      else if status response = 401 \<or> status response = 403
      then ''Authentication failed. Please check your PredictHQ API token.''
      else api_errorMessage response)"

definition getEventById :: "env \<Rightarrow> string \<Rightarrow> error + Event" where
  "getEventById env eventId =
     (if PREDICTHQ_API_TOKEN env = [] then Inl token_missing
      else if \<not> truthy_string (PREDICTHQ_API_BASE env) then Inl base_missing
      else (case fetch_predicthq env
                   (the (PREDICTHQ_API_BASE env) @ ''/events/?id=''
                    @ encodeURIComponent eventId) of
              Rejected msg \<Rightarrow> Inl (connect_failed msg)
            | Resolved response \<Rightarrow>
                if \<not> ok response then Inl (Error (byId_errorMessage eventId response))
                else (case json response of
                        Inl err \<Rightarrow> Inl err
                      | Inr responseData \<Rightarrow>
                          (case b_results responseData of
                             None \<Rightarrow> Inl (not_found_empty eventId)
                           | Some results \<Rightarrow>
                               if length results = 0 then Inl (not_found_empty eventId)
                               else (case find (\<lambda>e. p_id e = eventId) results of
                                       None \<Rightarrow> Inl (not_found_in_response eventId)
                                     | Some predicthqEvent \<Rightarrow>
                                         Inr (transformEvent predicthqEvent))))))"

text \<open>\<^verbatim>\<open>Promise.all\<close>: the values in the order of the promises, or a rejection.\<close>

fun Promise_all :: "(error + 'a) list \<Rightarrow> error + 'a list" where
  "Promise_all [] = Inr []"
| "Promise_all (p # ps) =
     (case p of
        Inl err \<Rightarrow> Inl err
      | Inr v \<Rightarrow> (case Promise_all ps of Inl err \<Rightarrow> Inl err | Inr vs \<Rightarrow> Inr (v # vs)))"

text \<open>Each lookup carries its own \<^verbatim>\<open>catch\<close>, which turns a failure into \<^verbatim>\<open>null\<close>
  (\<^term>\<open>None\<close>); the outer \<^verbatim>\<open>catch\<close> returns the empty array. The lookups run side by
  side in the source; they share no state, so each is the value of \<^verbatim>\<open>getEventById\<close> for
  its identifier.\<close>

definition getEventsByIds :: "env \<Rightarrow> string list \<Rightarrow> error + Event list" where
  "getEventsByIds env eventIds =
     (let promises = map (\<lambda>id. case getEventById env id of
                                  Inl err \<Rightarrow> Inr None
                                | Inr event \<Rightarrow> Inr (Some event)) eventIds
      in case Promise_all promises of
           Inl err \<Rightarrow> Inr []
         | Inr results \<Rightarrow> Inr (map the (filter (\<lambda>event. event \<noteq> None) results)))"

section \<open>What the properties speak of\<close>

subsection \<open>Provider records\<close>



text \<open>The three things a venue can be resolved from.\<close>

definition has_coordinates :: "PredictHQEvent \<Rightarrow> bool" where
  "has_coordinates e = (p_location e \<noteq> [] \<or> p_geo e \<noteq> None)"

definition has_address :: "PredictHQEvent \<Rightarrow> bool" where
  "has_address e = list_ex (\<lambda>l. loc_address l \<noteq> None) (p_location e)"

definition has_venue_entity :: "PredictHQEvent \<Rightarrow> bool" where
  "has_venue_entity e =
     (case p_entities e of
        None \<Rightarrow> False
      | Some es \<Rightarrow> list_ex (\<lambda>x. ent_type x = ''venue'') es)"

text \<open>The address block of the record supplies no locality.\<close>

definition no_locality :: "PredictHQEvent \<Rightarrow> bool" where
  "no_locality e =
     (case p_location e of
        [] \<Rightarrow> True
      | l # _ \<Rightarrow>
          (case loc_address l of
             None \<Rightarrow> True
           | Some a \<Rightarrow> \<not> truthy_string (addr_locality a)))"

text \<open>An entity that does not stand in the way of the venue's address: it is not a venue
  itself, and its formatted address is missing, empty or the given one.\<close>

definition defers_to :: "string \<Rightarrow> entity \<Rightarrow> bool" where
  "defers_to a x =
     (ent_type x \<noteq> ''venue''
      \<and> (ent_formatted_address x = None \<or> ent_formatted_address x = Some []
         \<or> ent_formatted_address x = Some a))"

subsection \<open>Example inputs\<close>

definition ex_venue :: entity where
  "ex_venue =
     \<lparr>ent_entity_id = None, ent_name = ''Town Hall'', ent_type = ''venue'',
      ent_formatted_address = Some ''123 Main St, Springfield, USA'',
      ent_url = None, ent_website = None\<rparr>"

definition ex_organizer :: entity where
  "ex_organizer =
     \<lparr>ent_entity_id = None, ent_name = ''Promoter'', ent_type = ''organizer'',
      ent_formatted_address = Some ''1 Other Rd, Shelbyville, USA'',
      ent_url = None, ent_website = None\<rparr>"

text \<open>A record with nothing but the required fields.\<close>

definition ex_bare :: PredictHQEvent where
  "ex_bare =
     \<lparr>p_id = ''A'', p_title = ''Jazz Night'', p_description = None,
      p_category = ''concerts'', p_start = ''2026-01-01T20:00:00Z'', p_end = None,
      p_timezone = ''UTC'', p_location = [], p_entities = None, p_url = None,
      p_website = None, p_ticket_url = None, p_external_url = None, p_private = None,
      p_country = None, p_geo = None\<rparr>"

definition ex_record :: PredictHQEvent where
  "ex_record = ex_bare\<lparr>p_entities := Some [ex_venue]\<rparr>"

definition ex_two_entities :: PredictHQEvent where
  "ex_two_entities = ex_bare\<lparr>p_entities := Some [ex_organizer, ex_venue]\<rparr>"

definition ex_private :: PredictHQEvent where
  "ex_private = ex_bare\<lparr>p_private := Some True\<rparr>"

subsection \<open>Errors\<close>

definition error_message :: "error \<Rightarrow> string" where
  "error_message err = (case err of Error m \<Rightarrow> m | RangeError m \<Rightarrow> m | SyntaxError m \<Rightarrow> m)"

text \<open>The service throws plain \<^verbatim>\<open>Error\<close> objects; a not-found error is told by the words
  its message starts with.\<close>

definition not_found_error :: "error \<Rightarrow> bool" where
  "not_found_error err =
     (case err of Error m \<Rightarrow> take 16 m = ''Event not found.'' | _ \<Rightarrow> False)"

text \<open>The results of a response body, a missing array read as the empty one.\<close>

definition results_of :: "provider_body \<Rightarrow> PredictHQEvent list" where
  "results_of body = (case b_results body of None \<Rightarrow> [] | Some rs \<Rightarrow> rs)"

definition configured :: "env \<Rightarrow> bool" where
  "configured env = (PREDICTHQ_API_TOKEN env \<noteq> [] \<and> truthy_string (PREDICTHQ_API_BASE env))"

definition byId_url :: "env \<Rightarrow> string \<Rightarrow> string" where
  "byId_url env eventId =
     the (PREDICTHQ_API_BASE env) @ ''/events/?id='' @ encodeURIComponent eventId"

subsection \<open>Example surroundings\<close>

definition ex_body_A :: provider_body where
  "ex_body_A =
     \<lparr>b_detail = None, b_message = None, b_error = None, b_results = Some [ex_record]\<rparr>"

definition ex_body_none :: provider_body where
  "ex_body_none = \<lparr>b_detail = None, b_message = None, b_error = None, b_results = Some []\<rparr>"

definition ex_provider :: "string \<Rightarrow> provider_body fetched" where
  "ex_provider u =
     (if u = ''https://api.predicthq.com/v1/events/?id=A''
      then Resolved \<lparr>status = 200, statusText = ''OK'', json = Inr ex_body_A\<rparr>
      else Resolved \<lparr>status = 200, statusText = ''OK'', json = Inr ex_body_none\<rparr>)"

definition ex_parseFloat :: "string \<Rightarrow> number option" where
  "ex_parseFloat s =
     (if s = ''6.4550575'' then Some 6.4550575
      else if s = ''3.3941795'' then Some 3.3941795
      else if s = ''0'' then Some 0
      else None)"

definition ex_fraction_toString :: "number \<Rightarrow> string" where
  "ex_fraction_toString x =
     (if x = 6.4550575 then ''6.4550575''
      else if x = 3.3941795 then ''3.3941795''
      else if x = 40.7128 then ''40.7128''
      else if x = - 74.006 then ''-74.006''
      else ''?'')"

text \<open>Configured, the geocoder unreachable, the provider knowing the one event ``A''.\<close>

definition ex_env :: env where
  "ex_env =
     \<lparr>PREDICTHQ_API_BASE = Some ''https://api.predicthq.com/v1'',
      PREDICTHQ_API_TOKEN = ''secret'',
      fetch_nominatim = (\<lambda>u. Rejected ''Failed to fetch''),
      fetch_predicthq = ex_provider,
      now = ''2026-11-03T09:00:00.000Z'',
      parseFloat = ex_parseFloat,
      fraction_toString = ex_fraction_toString,
      Date_toISOString = (\<lambda>s. Some s)\<rparr>"

subsection \<open>What a search sends\<close>

text \<open>\<^verbatim>\<open>URLSearchParams.getAll\<close>: the values given under a name, in order.\<close>

definition getAll :: "URLSearchParams \<Rightarrow> string \<Rightarrow> string list" where
  "getAll ps k = map snd (filter (\<lambda>p. fst p = k) ps)"

text \<open>The query parameters of the requests sent to the provider, and the place names given
  to the geocoder.\<close>

fun requests :: "effect list \<Rightarrow> URLSearchParams list" where
  "requests [] = []"
| "requests (Geocode c # tr) = requests tr"
| "requests (Fetch u ps # tr) = ps # requests tr"


text \<open>The dates of the filter set, when given, are dates.\<close>

definition dates_valid :: "env \<Rightarrow> EventFilters \<Rightarrow> bool" where
  "dates_valid env f =
     ((truthy_string (f_startDate f) \<longrightarrow> Date_toISOString env (the (f_startDate f)) \<noteq> None)
      \<and> (truthy_string (f_endDate f) \<longrightarrow> Date_toISOString env (the (f_endDate f)) \<noteq> None))"

text \<open>The locals of \<^verbatim>\<open>searchEvents\<close> once the location part of the query is built.\<close>

definition search_locals :: "env \<Rightarrow> EventFilters \<Rightarrow> search_state" where
  "search_locals env f = location_step env (geocode_step env f (search_init f))"

text \<open>The text of \<^verbatim>\<open>`${Math.round(miles * 1.60934)}km`\<close>.\<close>

definition km_of_miles :: "env \<Rightarrow> number \<Rightarrow> string" where
  "km_of_miles env miles = Number_toString env (of_int (Math_round (miles * 1.60934))) @ ''km''"

subsection \<open>Example searches\<close>






definition ex_coordinates_only :: EventFilters where
  "ex_coordinates_only = no_filters\<lparr>f_latitude := Some 40.7128, f_longitude := Some (- 74.006)\<rparr>"



definition ex_city :: "string \<Rightarrow> EventFilters" where
  "ex_city name = no_filters\<lparr>f_city := Some name\<rparr>"


section \<open>Properties of transformEvent\<close>








lemma te_venueEntity_iff: "te_venueEntity e \<noteq> None \<longleftrightarrow> has_venue_entity e"
proof (cases "p_entities e")
  case None
  then show ?thesis by (simp add: te_venueEntity_def has_venue_entity_def)
next
  case (Some es)
  have "(find (\<lambda>x. ent_type x = ''venue'') es = None)
        = (\<not> list_ex (\<lambda>x. ent_type x = ''venue'') es)"
    by (auto simp: find_None_iff list_ex_iff)
  with Some show ?thesis by (simp add: te_venueEntity_def has_venue_entity_def)
qed

lemma te_geo_iff: "te_geo e \<noteq> None \<longleftrightarrow> has_coordinates e"
  by (auto simp: te_geo_def te_location_def has_coordinates_def
           split: option.splits list.splits)

lemma te_address_has_coordinates: "te_address e \<noteq> None \<Longrightarrow> has_coordinates e"
  by (auto simp: te_address_def te_location_def has_coordinates_def
           split: option.splits list.splits)

lemma has_address_has_coordinates: "has_address e \<Longrightarrow> has_coordinates e"
  by (auto simp: has_address_def has_coordinates_def list_ex_iff)

text \<open>
  C9. The returned event has a venue exactly when the record had coordinates (a location
  entry or a geo geometry), an address block, or a venue-typed entity; with none of the
  three the venue is absent.
\<close>

theorem transformEvent_venue_present:
  "(ev_venue (transformEvent e) \<noteq> None)
   = (has_coordinates e \<or> has_address e \<or> has_venue_entity e)"
proof -
  have "(ev_venue (transformEvent e) \<noteq> None)
        = (te_geo e \<noteq> None \<or> te_address e \<noteq> None \<or> te_venueEntity e \<noteq> None)"
    by (simp add: transformEvent_def)
  also have "\<dots> = (has_coordinates e \<or> has_venue_entity e)"
    using te_address_has_coordinates [of e] te_geo_iff [of e] te_venueEntity_iff [of e]
    by blast
  also have "\<dots> = (has_coordinates e \<or> has_address e \<or> has_venue_entity e)"
    using has_address_has_coordinates [of e] by blast
  finally show ?thesis .
qed

theorem transformEvent_venue_present_witness:
  "has_venue_entity ex_record \<and> ev_venue (transformEvent ex_record) \<noteq> None
   \<and> \<not> has_coordinates ex_bare \<and> \<not> has_address ex_bare \<and> \<not> has_venue_entity ex_bare
   \<and> ev_venue (transformEvent ex_bare) = None"
proof -
  have a: "has_venue_entity ex_record" by code_simp
  have b: "\<not> has_coordinates ex_bare" "\<not> has_address ex_bare" "\<not> has_venue_entity ex_bare"
    by code_simp+
  from a b transformEvent_venue_present [of ex_record] transformEvent_venue_present [of ex_bare]
  show ?thesis by simp
qed

text \<open>
  C10. \<^verbatim>\<open>isOnline\<close> of the returned event is true exactly when the record's \<^verbatim>\<open>private\<close>
  field is true; it is false when \<^verbatim>\<open>private\<close> is false or missing.
\<close>

theorem transformEvent_isOnline:
  "ev_isOnline (transformEvent e) = (p_private e = Some True)"
  by (cases "p_private e") (simp_all add: transformEvent_def)

theorem transformEvent_isOnline_witness:
  "ev_isOnline (transformEvent ex_private) \<and> \<not> ev_isOnline (transformEvent ex_bare)"
proof -
  have "p_private ex_private = Some True" "p_private ex_bare \<noteq> Some True"
    by (simp_all add: ex_private_def ex_bare_def)
  with transformEvent_isOnline [of ex_private] transformEvent_isOnline [of ex_bare]
  show ?thesis by simp
qed

lemma find_first:
  "\<forall>x\<in>set pre. \<not> P x \<Longrightarrow> P v \<Longrightarrow> find P (pre @ v # post) = Some v"
  by (induction pre) auto

lemma find_some_with:
  "\<forall>x\<in>set pre. P x \<longrightarrow> Q x \<Longrightarrow> P v \<Longrightarrow> Q v
   \<Longrightarrow> \<exists>w. find P (pre @ v # post) = Some w \<and> Q w"
  by (induction pre) auto

lemma main_street_parts:
  "map trim (split ''123 Main St, Springfield, USA'' CHR '','')
   = [''123 Main St'', ''Springfield'', ''USA'']"
  by code_simp

lemma no_locality_iff:
  "no_locality e = (\<not> truthy_string (Option.bind (te_address e) addr_locality))"
  by (auto simp: no_locality_def te_address_def te_location_def truthy_string_def
           split: list.splits option.splits)

text \<open>
  C7, as the code has it. When the first venue-typed entity of the record has the
  formatted address ``123 Main St, Springfield, USA'', no entity listed before it has
  another non-empty formatted address, and the address block supplies no locality, the
  returned venue has that address and the city ``Springfield''.
\<close>

theorem transformEvent_main_street:
  assumes entities: "p_entities e = Some (pre @ v # post)"
    and before: "\<forall>x\<in>set pre. defers_to ''123 Main St, Springfield, USA'' x"
    and venue: "ent_type v = ''venue''"
    and address: "ent_formatted_address v = Some ''123 Main St, Springfield, USA''"
    and locality: "no_locality e"
  shows "\<exists>ven. ev_venue (transformEvent e) = Some ven
           \<and> v_address ven = ''123 Main St, Springfield, USA''
           \<and> v_city ven = Some ''Springfield''"
proof -
  have "find (\<lambda>x. ent_type x = ''venue'') (pre @ v # post) = Some v"
    using before venue by (intro find_first) (auto simp: defers_to_def)
  with entities have ve: "te_venueEntity e = Some v"
    by (simp add: te_venueEntity_def)
  have "\<exists>w. find (\<lambda>x. truthy_string (ent_formatted_address x)) (pre @ v # post) = Some w
          \<and> ent_formatted_address w = Some ''123 Main St, Springfield, USA''"
    using before address
    by (intro find_some_with) (auto simp: defers_to_def truthy_string_def)
  with entities obtain w where "te_entityWithAddress e = Some w"
    and "ent_formatted_address w = Some ''123 Main St, Springfield, USA''"
    by (auto simp: te_entityWithAddress_def)
  then have addr: "te_addressString e = ''123 Main St, Springfield, USA''"
    by (simp add: te_addressString_def or_string_def truthy_string_def)
  have city: "te_city e = Some ''Springfield''"
    using ve address locality
    by (simp add: te_city_def no_locality_iff truthy_string_def main_street_parts)
  from ve addr city show ?thesis by (simp add: transformEvent_def)
qed

theorem transformEvent_main_street_witness:
  "p_entities ex_record = Some ([] @ ex_venue # [])
   \<and> ent_type ex_venue = ''venue''
   \<and> ent_formatted_address ex_venue = Some ''123 Main St, Springfield, USA''
   \<and> no_locality ex_record
   \<and> (\<exists>ven. ev_venue (transformEvent ex_record) = Some ven
         \<and> v_address ven = ''123 Main St, Springfield, USA''
         \<and> v_city ven = Some ''Springfield'')"
proof -
  have h1: "p_entities ex_record = Some ([] @ ex_venue # [])"
    by (simp add: ex_record_def ex_bare_def)
  have h2: "\<forall>x\<in>set []. defers_to ''123 Main St, Springfield, USA'' x" by simp
  have h3: "ent_type ex_venue = ''venue''" by (simp add: ex_venue_def)
  have h4: "ent_formatted_address ex_venue = Some ''123 Main St, Springfield, USA''"
    by (simp add: ex_venue_def)
  have h5: "no_locality ex_record" by code_simp
  from transformEvent_main_street [OF h1 h2 h3 h4 h5] h1 h3 h4 h5 show ?thesis by blast
qed

text \<open>
  C7 as stated fails: an organizer listed before the venue gives the address.
\<close>

theorem transformEvent_main_street_counterexample:
  "p_entities ex_two_entities = Some [ex_organizer, ex_venue]
   \<and> ent_type ex_venue = ''venue''
   \<and> ent_formatted_address ex_venue = Some ''123 Main St, Springfield, USA''
   \<and> no_locality ex_two_entities
   \<and> map_option v_address (ev_venue (transformEvent ex_two_entities))
     = Some ''1 Other Rd, Shelbyville, USA''
   \<and> map_option v_address (ev_venue (transformEvent ex_two_entities))
     \<noteq> Some ''123 Main St, Springfield, USA''"
  by code_simp

section \<open>Properties of getEventById and getEventsByIds\<close>

lemma str_includes_middle: "str_includes (a @ s @ b) s"
proof (induction a)
  case Nil
  show ?case
  proof (cases "s @ b")
    case Nil
    then show ?thesis by simp
  next
    case (Cons c cs)
    have "take (length s) (s @ b) = s" by simp
    with Cons have "take (length s) (c # cs) = s" by simp
    then have "str_includes (c # cs) s" by (simp only: str_includes.simps) blast
    with Cons show ?thesis by simp
  qed
next
  case (Cons x a)
  then show ?case by simp
qed

lemma not_found_empty_message:
  "not_found_error (not_found_empty eventId)
   \<and> str_includes (error_message (not_found_empty eventId)) eventId"
proof -
  have "str_includes ((''Event not found. The event ID '' @ dq) @ eventId
          @ (dq @ '' may be invalid or the event may no longer be available.'')) eventId"
    by (rule str_includes_middle)
  then show ?thesis
    by (simp add: not_found_empty_def not_found_error_def error_message_def)
qed

lemma not_found_in_response_message:
  "not_found_error (not_found_in_response eventId)
   \<and> str_includes (error_message (not_found_in_response eventId)) eventId"
proof -
  have "str_includes ((''Event not found. The event ID '' @ dq) @ eventId
          @ (dq @ '' was not found in the API response.'')) eventId"
    by (rule str_includes_middle)
  then show ?thesis
    by (simp add: not_found_in_response_def not_found_error_def error_message_def)
qed

lemma getEventById_ok:
  assumes "configured env"
    and "fetch_predicthq env (byId_url env eventId) = Resolved response"
    and "ok response"
    and "json response = Inr data"
  shows "getEventById env eventId =
           (if results_of data = [] then Inl (not_found_empty eventId)
            else (case find (\<lambda>e. p_id e = eventId) (results_of data) of
                    None \<Rightarrow> Inl (not_found_in_response eventId)
                  | Some predicthqEvent \<Rightarrow> Inr (transformEvent predicthqEvent)))"
  using assms
  by (simp add: getEventById_def configured_def byId_url_def results_of_def
           split: option.splits)

text \<open>
  C3. When the provider answers a lookup with a result set that is empty, or that has no
  record of the requested id, \<^verbatim>\<open>getEventById\<close> fails with a not-found error whose
  message contains the id; when a record of that id is among the results, it returns
  the transform of the first such record.
\<close>

theorem getEventById_not_found:
  assumes "configured env"
    and "fetch_predicthq env (byId_url env eventId) = Resolved response"
    and "ok response"
    and "json response = Inr data"
  shows "(find (\<lambda>e. p_id e = eventId) (results_of data) = None \<longrightarrow>
            (\<exists>err. getEventById env eventId = Inl err \<and> not_found_error err
                  \<and> str_includes (error_message err) eventId))
         \<and> (results_of data = [] \<longrightarrow> getEventById env eventId = Inl (not_found_empty eventId))
         \<and> (\<forall>r. find (\<lambda>e. p_id e = eventId) (results_of data) = Some r \<longrightarrow>
                getEventById env eventId = Inr (transformEvent r))"
proof -
  note eq = getEventById_ok [OF assms]
  have "\<exists>err. getEventById env eventId = Inl err \<and> not_found_error err
              \<and> str_includes (error_message err) eventId"
    if "find (\<lambda>e. p_id e = eventId) (results_of data) = None"
  proof (cases "results_of data = []")
    case True
    with eq not_found_empty_message [of eventId] show ?thesis by simp
  next
    case False
    with eq that not_found_in_response_message [of eventId] show ?thesis by simp
  qed
  moreover have "getEventById env eventId = Inl (not_found_empty eventId)"
    if "results_of data = []"
    using eq that by simp
  moreover have "getEventById env eventId = Inr (transformEvent r)"
    if "find (\<lambda>e. p_id e = eventId) (results_of data) = Some r" for r
  proof -
    from that have "results_of data \<noteq> []" by auto
    with eq that show ?thesis by simp
  qed
  ultimately show ?thesis by blast
qed

theorem getEventById_not_found_witness:
  "configured ex_env
   \<and> getEventById ex_env ''missing''
     = Inl (Error (''Event not found. The event ID '' @ dq @ ''missing'' @ dq
                   @ '' may be invalid or the event may no longer be available.''))
   \<and> getEventById ex_env ''A'' = Inr (transformEvent ex_record)"
proof -
  let ?ok = "\<lparr>status = 200, statusText = ''OK'', json = Inr ex_body_none\<rparr>"
  let ?okA = "\<lparr>status = 200, statusText = ''OK'', json = Inr ex_body_A\<rparr>"
  have c: "configured ex_env" by code_simp
  have f: "fetch_predicthq ex_env (byId_url ex_env ''missing'') = Resolved ?ok"
    and fA: "fetch_predicthq ex_env (byId_url ex_env ''A'') = Resolved ?okA"
    by code_simp+
  have k: "ok ?ok" "ok ?okA" by code_simp+
  have e: "results_of ex_body_none = []"
    and eA: "find (\<lambda>e. p_id e = ''A'') (results_of ex_body_A) = Some ex_record"
    by code_simp+
  from getEventById_not_found [OF c f k(1), of ex_body_none] e
  have "getEventById ex_env ''missing'' = Inl (not_found_empty ''missing'')" by simp
  moreover from getEventById_not_found [OF c fA k(2), of ex_body_A] eA
  have "getEventById ex_env ''A'' = Inr (transformEvent ex_record)" by simp
  ultimately show ?thesis using c by (simp add: not_found_empty_def)
qed

lemma Promise_all_caught:
  "Promise_all (map (\<lambda>i. case g i of Inl err \<Rightarrow> Inr None | Inr v \<Rightarrow> Inr (Some v)) ids)
   = Inr (map (\<lambda>i. case g i of Inl err \<Rightarrow> None | Inr v \<Rightarrow> Some v) ids)"
  by (induction ids) (auto split: sum.splits)

lemma successes_in_order:
  "map the (filter (\<lambda>r. r \<noteq> None)
     (map (\<lambda>i. case g i of Inl err \<Rightarrow> None | Inr v \<Rightarrow> Some v) ids))
   = concat (map (\<lambda>i. case g i of Inl err \<Rightarrow> [] | Inr v \<Rightarrow> [v]) ids)"
  by (induction ids) (auto split: sum.splits)

text \<open>
  C2. \<^verbatim>\<open>getEventsByIds\<close> never fails: its result is the list of the events of the
  lookups that succeeded, in the order of the identifiers, the failed lookups left out.
  So with ``A'' found and ``B'' failing, the result for ``A'', ``B'' is the one event
  of ``A''.
\<close>

theorem getEventsByIds_partial:
  "getEventsByIds env ids
   = Inr (concat (map (\<lambda>i. case getEventById env i of Inl err \<Rightarrow> [] | Inr ev \<Rightarrow> [ev]) ids))
   \<and> (getEventById env a = Inr eventA \<and> getEventById env b = Inl err \<longrightarrow>
        getEventsByIds env [a, b] = Inr [eventA])"
proof -
  have eq: "getEventsByIds env xs
      = Inr (concat (map (\<lambda>i. case getEventById env i of Inl err \<Rightarrow> [] | Inr ev \<Rightarrow> [ev]) xs))"
    for xs
    by (simp only: getEventsByIds_def Let_def Promise_all_caught sum.case successes_in_order)
  show ?thesis
  proof (intro conjI impI)
    show "getEventsByIds env ids
      = Inr (concat (map (\<lambda>i. case getEventById env i of Inl err \<Rightarrow> [] | Inr ev \<Rightarrow> [ev]) ids))"
      by (rule eq)
  next
    assume "getEventById env a = Inr eventA \<and> getEventById env b = Inl err"
    then show "getEventsByIds env [a, b] = Inr [eventA]"
      by (simp add: eq)
  qed
qed

theorem getEventsByIds_partial_witness:
  "getEventById ex_env ''A'' = Inr (transformEvent ex_record)
   \<and> getEventById ex_env ''B'' = Inl (not_found_empty ''B'')
   \<and> getEventsByIds ex_env [''A'', ''B''] = Inr [transformEvent ex_record]"
proof -
  have a: "getEventById ex_env ''A'' = Inr (transformEvent ex_record)" by code_simp
  have b: "getEventById ex_env ''B'' = Inl (not_found_empty ''B'')" by code_simp
  from getEventsByIds_partial [of ex_env "[]" "''A''" "transformEvent ex_record" "''B''"
         "not_found_empty ''B''"] a b
  show ?thesis by simp
qed

section \<open>Properties of searchEvents and getPopularEvents\<close>

subsection \<open>What is sent\<close>

lemma requests_append: "requests (a @ b) = requests a @ requests b"
  by (induction a rule: requests.induct) simp_all


lemma getAll_append:
  "getAll (params_append ps k v) k' = getAll ps k' @ (if k = k' then [v] else [])"
  by (simp add: getAll_def params_append_def)

lemma set_params_append: "set (params_append ps k v) = insert (k, v) (set ps)"
  by (simp add: params_append_def)

lemma date_step_getAll:
  assumes "date_step env f ps = Inr ps'" and "k \<noteq> ''start.gte''" and "k \<noteq> ''start.lte''"
  shows "getAll ps' k = getAll ps k"
  using assms
  by (auto simp: date_step_def getAll_append split: if_splits option.splits sum.splits)

lemma date_step_keeps:
  assumes "date_step env f ps = Inr ps'"
  shows "set ps \<subseteq> set ps'"
  using assms
  by (auto simp: date_step_def set_params_append split: if_splits option.splits sum.splits)

lemma date_step_valid:
  assumes "dates_valid env f"
  shows "\<exists>ps'. date_step env f ps = Inr ps'"
  using assms
  by (auto simp: date_step_def dates_valid_def split: if_splits option.splits sum.splits)

lemma rest_step_getAll:
  assumes "k \<noteq> ''q''" and "k \<noteq> ''category''" and "k \<noteq> ''private''"
    and "k \<noteq> ''limit''" and "k \<noteq> ''sort''"
  shows "getAll (rest_step f ps) k = getAll ps k"
  using assms by (simp add: rest_step_def Let_def getAll_append)

lemma rest_step_keeps: "set ps \<subseteq> set (rest_step f ps)"
  by (auto simp: rest_step_def Let_def set_params_append)

lemma trace_search_locals:
  "trace (search_locals env f)
   = (if \<not> truthy_number (f_latitude f) \<and> \<not> truthy_number (f_longitude f)
         \<and> truthy_string (f_city f)
      then [Geocode (the (f_city f))] else [])"
  by (simp add: search_locals_def location_step_def geocode_step_def search_init_def Let_def
           split: option.splits)

lemma requests_trace_search_locals: "requests (trace (search_locals env f)) = []"
  by (simp add: trace_search_locals)

lemma searchEvents_unfold:
  "searchEvents env f =
     (if \<not> configured env then ([], Inl (if PREDICTHQ_API_TOKEN env = [] then token_missing
                                          else base_missing))
      else (case date_step env f (params (search_locals env f)) of
              Inl err \<Rightarrow> (trace (search_locals env f), Inl err)
            | Inr ps \<Rightarrow>
                (trace (search_locals env f)
                 @ [Fetch (the (PREDICTHQ_API_BASE env) @ ''/events/?'') (rest_step f ps)],
                 search_response
                   (fetch_predicthq env
                      ((the (PREDICTHQ_API_BASE env) @ ''/events/?'')
                       @ params_toString (rest_step f ps))))))"
  by (simp add: searchEvents_def configured_def search_locals_def Let_def split: sum.splits)

lemma requests_searchEvents:
  "requests (fst (searchEvents env f)) =
     (if \<not> configured env then []
      else (case date_step env f (params (search_locals env f)) of
              Inl err \<Rightarrow> []
            | Inr ps \<Rightarrow> [rest_step f ps]))"
  by (simp add: searchEvents_unfold requests_append requests_trace_search_locals
           split: sum.splits)


lemma request_sent:
  assumes "configured env" and "dates_valid env f"
  shows "length (requests (fst (searchEvents env f))) = 1"
  using assms date_step_valid [OF assms(2), of "params (search_locals env f)"]
  by (auto simp: requests_searchEvents)

lemma request_location:
  assumes "ps \<in> set (requests (fst (searchEvents env f)))"
    and "k = ''location_around.origin'' \<or> k = ''location_around.radius''"
  shows "getAll ps k = getAll (params (search_locals env f)) k"
proof -
  from assms(1) obtain ps0 where d: "date_step env f (params (search_locals env f)) = Inr ps0"
    and ps: "ps = rest_step f ps0"
    by (cases "date_step env f (params (search_locals env f))")
       (auto simp: requests_searchEvents split: if_splits)
  from assms(2) have "getAll (rest_step f ps0) k = getAll ps0 k"
    by (intro rest_step_getAll) auto
  moreover from assms(2) have "getAll ps0 k = getAll (params (search_locals env f)) k"
    by (intro date_step_getAll [OF d]) auto
  ultimately show ?thesis using ps by simp
qed

lemma request_keeps:
  assumes "ps \<in> set (requests (fst (searchEvents env f)))"
  shows "set (params (search_locals env f)) \<subseteq> set ps"
proof -
  from assms obtain ps0 where d: "date_step env f (params (search_locals env f)) = Inr ps0"
    and ps: "ps = rest_step f ps0"
    by (cases "date_step env f (params (search_locals env f))")
       (auto simp: requests_searchEvents split: if_splits)
  from date_step_keeps [OF d] rest_step_keeps [of ps0 f] ps show ?thesis by blast
qed

subsection \<open>The location part of the query\<close>

lemma locals_explicit:
  assumes "truthy_number (f_latitude f)" and "truthy_number (f_longitude f)"
  shows "getAll (params (search_locals env f)) ''location_around.radius''
         = [if truthy_number (f_radius f) then km_of_miles env (the (f_radius f))
            else Number_toString env (of_int (Math_round 50)) @ ''km'']"
  using assms
  by (simp add: search_locals_def location_step_def geocode_step_def search_init_def Let_def
        getAll_append km_of_miles_def)
     (simp add: getAll_def)


lemma locals_geocode_failed:
  assumes "\<not> truthy_number (f_latitude f)" and "\<not> truthy_number (f_longitude f)"
    and "truthy_string (f_city f)"
    and "geocodeLocation env (the (f_city f)) = None"
  shows "params (search_locals env f) = [(''q'', the (f_city f))]"
  using assms
  by (simp add: search_locals_def location_step_def geocode_step_def search_init_def Let_def
        params_append_def)

lemma Number_toString_int:
  assumes "\<bar>n\<bar> < 10 ^ 21"
  shows "Number_toString env (of_int n) = show_int n"
proof -
  from assms have "\<bar>real_of_int n\<bar> < 10 ^ 21"
    by (metis of_int_abs of_int_less_numeral_power_cancel_iff)
  then show ?thesis by (simp add: Number_toString_def)
qed

lemma km_text:
  assumes "Math_round x = n" and "\<bar>n\<bar> < 10 ^ 21" and "show_int n = s"
  shows "Number_toString env (of_int (Math_round x)) @ ''km'' = s @ ''km''"
  using assms Number_toString_int [of n env] by simp

lemma km_50: "Number_toString env (of_int (Math_round 50)) @ ''km'' = ''50km''"
proof -
  have "Math_round 50 = 50" by (simp add: Math_round_def)
  moreover have "\<bar>50 :: int\<bar> < 10 ^ 21" by simp
  moreover have "show_int 50 = ''50''" by code_simp
  ultimately have "Number_toString env (of_int (Math_round 50)) @ ''km'' = ''50'' @ ''km''"
    by (rule km_text)
  then show ?thesis by simp
qed

lemma km_of_50_miles: "km_of_miles env 50 = ''80km''"
proof -
  have "Math_round (50 * 1.60934) = 80" by (simp add: Math_round_def)
  moreover have "\<bar>80 :: int\<bar> < 10 ^ 21" by simp
  moreover have "show_int 80 = ''80''" by code_simp
  ultimately have "km_of_miles env 50 = ''80'' @ ''km''"
    unfolding km_of_miles_def by (rule km_text)
  then show ?thesis by simp
qed



lemma only_request:
  assumes "length rs = 1" and "\<forall>ps\<in>set rs. P ps"
  shows "P (hd rs)"
  using assms by (cases rs) auto

subsection \<open>Explicit coordinates\<close>




subsection \<open>A city that the geocoder finds\<close>




subsection \<open>A city that the geocoder does not find\<close>

text \<open>
  C6. With no non-zero coordinate in the filter set and a city for which the geocoder
  returns nothing, every request carries the city under \<^verbatim>\<open>q\<close> and carries neither
  \<^verbatim>\<open>location_around.origin\<close> nor \<^verbatim>\<open>location_around.radius\<close>. No error comes out of the
  geocoding step: a configured service given valid dates goes on to send its one request,
  and the outcome of the search is what the provider's response gives.
\<close>

theorem searchEvents_geocode_failed:
  assumes "\<not> truthy_number (f_latitude f)" and "\<not> truthy_number (f_longitude f)"
    and "truthy_string (f_city f)"
    and "geocodeLocation env (the (f_city f)) = None"
  shows "(\<forall>ps\<in>set (requests (fst (searchEvents env f))).
            (''q'', the (f_city f)) \<in> set ps
            \<and> getAll ps ''location_around.origin'' = []
            \<and> getAll ps ''location_around.radius'' = [])
         \<and> (configured env \<and> dates_valid env f \<longrightarrow>
              (\<exists>url ps. searchEvents env f
                 = ([Geocode (the (f_city f)), Fetch url ps],
                    search_response (fetch_predicthq env (url @ params_toString ps)))))"
proof (intro conjI impI ballI)
  fix ps
  assume ps: "ps \<in> set (requests (fst (searchEvents env f)))"
  note built = locals_geocode_failed [OF assms]
  from request_keeps [OF ps] built show "(''q'', the (f_city f)) \<in> set ps" by simp
  from request_location [OF ps, of "''location_around.origin''"] built
  show "getAll ps ''location_around.origin'' = []" by (simp add: getAll_def)
  from request_location [OF ps, of "''location_around.radius''"] built
  show "getAll ps ''location_around.radius'' = []" by (simp add: getAll_def)
next
  assume "configured env \<and> dates_valid env f"
  then have c: "configured env" and d: "dates_valid env f" by simp_all
  from date_step_valid [OF d] obtain ps0
    where "date_step env f (params (search_locals env f)) = Inr ps0" by blast
  with c assms(1-3)
  have "searchEvents env f
        = ([Geocode (the (f_city f)),
            Fetch (the (PREDICTHQ_API_BASE env) @ ''/events/?'') (rest_step f ps0)],
           search_response
             (fetch_predicthq env
                ((the (PREDICTHQ_API_BASE env) @ ''/events/?'')
                 @ params_toString (rest_step f ps0))))"
    by (simp add: searchEvents_unfold trace_search_locals)
  then show "\<exists>url ps. searchEvents env f
      = ([Geocode (the (f_city f)), Fetch url ps],
         search_response (fetch_predicthq env (url @ params_toString ps)))"
    by blast
qed

theorem searchEvents_geocode_failed_witness:
  "geocodeLocation ex_env ''Atlantis'' = None
   \<and> configured ex_env \<and> dates_valid ex_env (ex_city ''Atlantis'')
   \<and> length (requests (fst (searchEvents ex_env (ex_city ''Atlantis'')))) = 1
   \<and> (''q'', ''Atlantis'') \<in> set (hd (requests (fst (searchEvents ex_env (ex_city ''Atlantis'')))))
   \<and> getAll (hd (requests (fst (searchEvents ex_env (ex_city ''Atlantis'')))))
        ''location_around.origin'' = []
   \<and> getAll (hd (requests (fst (searchEvents ex_env (ex_city ''Atlantis'')))))
        ''location_around.radius'' = []
   \<and> snd (searchEvents ex_env (ex_city ''Atlantis'')) = Inr []"
proof -
  have h1: "\<not> truthy_number (f_latitude (ex_city ''Atlantis''))"
    and h2: "\<not> truthy_number (f_longitude (ex_city ''Atlantis''))"
    and h3: "truthy_string (f_city (ex_city ''Atlantis''))"
    and h4: "geocodeLocation ex_env (the (f_city (ex_city ''Atlantis''))) = None"
    and c: "configured ex_env"
    and d: "dates_valid ex_env (ex_city ''Atlantis'')"
    by code_simp+
  have city: "the (f_city (ex_city ''Atlantis'')) = ''Atlantis''"
    by (simp add: ex_city_def)
  have one: "length (requests (fst (searchEvents ex_env (ex_city ''Atlantis'')))) = 1"
    using c d by (rule request_sent)
  have out: "snd (searchEvents ex_env (ex_city ''Atlantis'')) = Inr []" by code_simp
  note inst = searchEvents_geocode_failed [OF h1 h2 h3 h4]
  from inst have "\<forall>ps\<in>set (requests (fst (searchEvents ex_env (ex_city ''Atlantis'')))).
      (''q'', ''Atlantis'') \<in> set ps
      \<and> getAll ps ''location_around.origin'' = []
      \<and> getAll ps ''location_around.radius'' = []"
    by (simp add: city)
  from only_request [OF one this] h4 c d one out city show ?thesis by simp
qed

subsection \<open>The default radius\<close>

lemma popular_filters_coordinates:
  assumes "truthy_number la" and "truthy_number lo"
  shows "popular_filters city la lo
         = no_filters\<lparr>f_latitude := la, f_longitude := lo, f_radius := Some 50\<rparr>"
  using assms by (simp add: popular_filters_def)

lemma fst_getPopularEvents:
  "fst (getPopularEvents env city la lo) = fst (searchEvents env (popular_filters city la lo))"
  by (simp add: getPopularEvents_def split: prod.splits sum.splits)

text \<open>
  C8, as the code has it. With non-zero coordinates and no radius of the caller (or the
  radius 0), every request of \<^verbatim>\<open>searchEvents\<close> carries the radius ``50km'': the default
  is 50 kilometres and is not converted. \<^verbatim>\<open>getPopularEvents\<close> with non-zero coordinates
  asks for 50 miles, and every request carries ``80km'', the text of
  \<open>round(50 \<times> 1.60934)\<close>. A configured service (with valid dates, where there are
  dates) sends exactly one request.
\<close>

theorem default_radius:
  "(truthy_number (f_latitude f) \<and> truthy_number (f_longitude f)
      \<and> \<not> truthy_number (f_radius f) \<longrightarrow>
        (\<forall>ps\<in>set (requests (fst (searchEvents env f))).
            getAll ps ''location_around.radius'' = [''50km''])
        \<and> (configured env \<and> dates_valid env f \<longrightarrow>
             length (requests (fst (searchEvents env f))) = 1))
   \<and> (truthy_number la \<and> truthy_number lo \<longrightarrow>
        (\<forall>ps\<in>set (requests (fst (getPopularEvents env city la lo))).
            getAll ps ''location_around.radius'' = [''80km''])
        \<and> (configured env \<longrightarrow>
             length (requests (fst (getPopularEvents env city la lo))) = 1))
   \<and> km_of_miles env 50 = ''80km''"
proof (intro conjI impI ballI)
  show "km_of_miles env 50 = ''80km''" by (rule km_of_50_miles)
next
  fix ps
  assume h: "truthy_number (f_latitude f) \<and> truthy_number (f_longitude f)
      \<and> \<not> truthy_number (f_radius f)"
    and ps: "ps \<in> set (requests (fst (searchEvents env f)))"
  from h have "getAll (params (search_locals env f)) ''location_around.radius'' = [''50km'']"
    by (simp add: locals_explicit km_50)
  with ps show "getAll ps ''location_around.radius'' = [''50km'']"
    by (simp add: request_location)
next
  assume "configured env \<and> dates_valid env f"
  then show "length (requests (fst (searchEvents env f))) = 1"
    by (simp add: request_sent)
next
  fix ps
  let ?f = "no_filters\<lparr>f_latitude := la, f_longitude := lo, f_radius := Some 50\<rparr>"
  assume h: "truthy_number la \<and> truthy_number lo"
    and "ps \<in> set (requests (fst (getPopularEvents env city la lo)))"
  then have ps: "ps \<in> set (requests (fst (searchEvents env ?f)))"
    by (simp add: fst_getPopularEvents popular_filters_coordinates)
  from h have "truthy_number (f_latitude ?f)" "truthy_number (f_longitude ?f)" by simp_all
  then have "getAll (params (search_locals env ?f)) ''location_around.radius''
      = [km_of_miles env 50]"
    by (simp add: locals_explicit truthy_number_def)
  with ps show "getAll ps ''location_around.radius'' = [''80km'']"
    by (simp add: request_location km_of_50_miles)
next
  let ?f = "no_filters\<lparr>f_latitude := la, f_longitude := lo, f_radius := Some 50\<rparr>"
  assume h: "truthy_number la \<and> truthy_number lo" and c: "configured env"
  have "dates_valid env ?f"
    by (simp add: dates_valid_def no_filters_def truthy_string_def)
  with c have "length (requests (fst (searchEvents env ?f))) = 1" by (rule request_sent)
  with h show "length (requests (fst (getPopularEvents env city la lo))) = 1"
    by (simp add: fst_getPopularEvents popular_filters_coordinates)
qed

theorem default_radius_witness:
  "truthy_number (f_latitude ex_coordinates_only)
   \<and> truthy_number (f_longitude ex_coordinates_only)
   \<and> f_radius ex_coordinates_only = None
   \<and> configured ex_env \<and> dates_valid ex_env ex_coordinates_only
   \<and> length (requests (fst (searchEvents ex_env ex_coordinates_only))) = 1
   \<and> getAll (hd (requests (fst (searchEvents ex_env ex_coordinates_only))))
        ''location_around.radius'' = [''50km'']
   \<and> length (requests (fst (getPopularEvents ex_env None (Some 40.7128) (Some (- 74.006))))) = 1
   \<and> getAll (hd (requests (fst (getPopularEvents ex_env None (Some 40.7128) (Some (- 74.006))))))
        ''location_around.radius'' = [''80km'']"
proof -
  have h1: "truthy_number (f_latitude ex_coordinates_only)"
    and h2: "truthy_number (f_longitude ex_coordinates_only)"
    and h3: "f_radius ex_coordinates_only = None"
    and c: "configured ex_env"
    and d: "dates_valid ex_env ex_coordinates_only"
    and p: "truthy_number (Some 40.7128)" "truthy_number (Some (- 74.006))"
    by code_simp+
  from h3 have h3': "\<not> truthy_number (f_radius ex_coordinates_only)"
    by (simp add: truthy_number_def)
  note inst = default_radius [of ex_coordinates_only ex_env "Some 40.7128" "Some (- 74.006)" None]
  from inst h1 h2 h3' c d
  have one: "length (requests (fst (searchEvents ex_env ex_coordinates_only))) = 1"
    and all: "\<forall>ps\<in>set (requests (fst (searchEvents ex_env ex_coordinates_only))).
        getAll ps ''location_around.radius'' = [''50km'']"
    by blast+
  from inst p c
  have oneP: "length (requests (fst (getPopularEvents ex_env None (Some 40.7128)
        (Some (- 74.006))))) = 1"
    and allP: "\<forall>ps\<in>set (requests (fst (getPopularEvents ex_env None (Some 40.7128)
        (Some (- 74.006))))). getAll ps ''location_around.radius'' = [''80km'']"
    by blast+
  from only_request [OF one all] only_request [OF oneP allP] h1 h2 h3 c d one oneP
  show ?thesis by blast
qed

text \<open>
  C8 as stated fails: without a radius the general search sends ``50km'', not the
  ``40km'' that 25 miles would be.
\<close>

theorem default_radius_counterexample:
  "f_latitude ex_coordinates_only = Some 40.7128
   \<and> f_longitude ex_coordinates_only = Some (- 74.006)
   \<and> f_radius ex_coordinates_only = None
   \<and> km_of_miles ex_env 25 = ''40km''
   \<and> searchEvents ex_env ex_coordinates_only
     = ([Fetch ''https://api.predicthq.com/v1/events/?''
           [(''location_around.origin'', ''40.7128,-74.006''),
            (''location_around.radius'', ''50km''),
            (''start.gte'', ''2026-11-03T09:00:00.000Z''),
            (''private'', ''false''), (''limit'', ''50''), (''sort'', ''-rank'')]],
        Inr [])"
  by code_simp

end
